theory Spec2Isabelle
  imports Complex_Main
begin

section \<open>Data model\<close>

text \<open>
  The interfaces of \<^verbatim>\<open>Home.tsx\<close>. A JavaScript number that only travels through the
  component (a price) is a \<^typ>\<open>real\<close>; a number used as an index or a count is an
  \<^typ>\<open>int\<close>. The optional \<^verbatim>\<open>message\<close> field is an option.
\<close>

record Prediction =
  Date :: string
  Predicted_Price :: real

record PredictionResponse =
  success :: bool
  predictions :: "Prediction list"
  plot_url :: string
  message :: "string option"

text \<open>
  The five \<^verbatim>\<open>useState\<close> cells of the component, with values of the types the
  source declares for them. The field \<open>predictions\<close> of the state hides the field of
  the same name of the payload, which is written \<open>PredictionResponse.predictions\<close>
  below.
\<close>

record HomeState =
  loading :: bool
  error :: "string option"
  predictions :: "Prediction list"
  plotUrl :: string
  currentPage :: int

definition itemsPerPage :: int where
  "itemsPerPage = 8"


section \<open>Pagination\<close>

text \<open>
  \<^verbatim>\<open>Array.prototype.slice(start, end)\<close>: a negative bound counts from the end of the
  array, both bounds are cut to the array, and an empty range gives the empty array.
  It never throws.
\<close>

definition slice :: "'a list \<Rightarrow> int \<Rightarrow> int \<Rightarrow> 'a list" where
  "slice xs start endIdx =
     (let len = int (length xs);
          k = (if start < 0 then max (len + start) 0 else min start len);
          final = (if endIdx < 0 then max (len + endIdx) 0 else min endIdx len);
          count = max (final - k) 0
      in take (nat count) (drop (nat k) xs))"

text \<open>
  \<^verbatim>\<open>Math.ceil(predictions.length / itemsPerPage)\<close>, with the page size a parameter
  (the component fixes it to \<open>itemsPerPage\<close>). The length of an array is below \<open>2^32\<close>,
  so for an integer page size the rounded quotient lies on the same side of every
  integer as the exact one, and the ceiling is taken of the exact quotient here.
\<close>

definition totalPages :: "'a list \<Rightarrow> int \<Rightarrow> int" where
  "totalPages ps pageSize = \<lceil>real (length ps) / real_of_int pageSize\<rceil>"

definition getCurrentItems :: "'a list \<Rightarrow> int \<Rightarrow> int \<Rightarrow> 'a list" where
  "getCurrentItems ps page pageSize =
     (let start = page * pageSize;
          endIdx = start + pageSize
      in slice ps start endIdx)"


section \<open>Values at run time\<close>

text \<open>
  The annotation \<^verbatim>\<open>const data: PredictionResponse\<close> is erased when the program runs:
  \<^verbatim>\<open>response.json()\<close> resolves to whatever value the body denotes, and the cells of
  the component hold whatever the setters were given. A value is \<^verbatim>\<open>undefined\<close> or a
  JSON value; an object is the list of its own properties.
\<close>

datatype jsval =
    JUndefined
  | JNull
  | JBool bool
  | JNum real
  | JStr string
  | JArr "jsval list"
  | JObj "(string \<times> jsval) list"

datatype exn = TypeError | SyntaxError

text \<open>
  Reading a property, \<^verbatim>\<open>v.name\<close>: a TypeError on \<^verbatim>\<open>undefined\<close> and \<^verbatim>\<open>null\<close>,
  the own property of an object, and \<^verbatim>\<open>undefined\<close> otherwise. The names the
  component reads this way (\<^verbatim>\<open>success\<close>, \<^verbatim>\<open>predictions\<close>, \<^verbatim>\<open>plot_url\<close>,
  \<^verbatim>\<open>message\<close>, \<^verbatim>\<open>Date\<close>, \<^verbatim>\<open>Predicted_Price\<close>) are inherited from no prototype.
\<close>

definition property :: "jsval \<Rightarrow> string \<Rightarrow> exn + jsval" where
  "property v name =
     (case v of
        JUndefined \<Rightarrow> Inl TypeError
      | JNull \<Rightarrow> Inl TypeError
      | JObj kvs \<Rightarrow> Inr (case map_of kvs name of None \<Rightarrow> JUndefined | Some x \<Rightarrow> x)
      | _ \<Rightarrow> Inr JUndefined)"

text \<open>What \<^verbatim>\<open>if (v)\<close> and \<^verbatim>\<open>v || w\<close> take for true.\<close>

definition truthy :: "jsval \<Rightarrow> bool" where
  "truthy v =
     (case v of
        JUndefined \<Rightarrow> False
      | JNull \<Rightarrow> False
      | JBool b \<Rightarrow> b
      | JNum x \<Rightarrow> x \<noteq> 0
      | JStr s \<Rightarrow> s \<noteq> []
      | _ \<Rightarrow> True)"

text \<open>
  A value inside a template literal: a string stands for itself; the conversion of any
  other value is the language's, may throw, and is a parameter.
\<close>

definition templateString :: "(jsval \<Rightarrow> exn + string) \<Rightarrow> jsval \<Rightarrow> exn + string" where
  "templateString conv v = (case v of JStr s \<Rightarrow> Inr s | _ \<Rightarrow> conv v)"

text \<open>The values of the declared types among the values at run time.\<close>

definition js_of_Prediction :: "Prediction \<Rightarrow> jsval" where
  "js_of_Prediction p =
     JObj [(''Date'', JStr (Date p)), (''Predicted_Price'', JNum (Predicted_Price p))]"

definition js_of_response :: "PredictionResponse \<Rightarrow> jsval" where
  "js_of_response d =
     JObj ([(''success'', JBool (success d)),
            (''predictions'', JArr (map js_of_Prediction (PredictionResponse.predictions d))),
            (''plot_url'', JStr (plot_url d))]
           @ (case message d of None \<Rightarrow> [] | Some m \<Rightarrow> [(''message'', JStr m)]))"

text \<open>The cells of the component as they are when the program runs.\<close>

record HomeCells =
  loading_cell :: bool
  error_cell :: jsval
  predictions_cell :: jsval
  plotUrl_cell :: string
  currentPage_cell :: int

definition initialState :: HomeCells where
  "initialState =
     \<lparr>loading_cell = True, error_cell = JNull, predictions_cell = JArr [],
      plotUrl_cell = [], currentPage_cell = 0\<rparr>"

definition setLoading :: "bool \<Rightarrow> HomeCells \<Rightarrow> HomeCells" where
  "setLoading b st = st\<lparr>loading_cell := b\<rparr>"

definition setError :: "jsval \<Rightarrow> HomeCells \<Rightarrow> HomeCells" where
  "setError v st = st\<lparr>error_cell := v\<rparr>"

definition setPredictions :: "jsval \<Rightarrow> HomeCells \<Rightarrow> HomeCells" where
  "setPredictions v st = st\<lparr>predictions_cell := v\<rparr>"

definition setPlotUrl :: "string \<Rightarrow> HomeCells \<Rightarrow> HomeCells" where
  "setPlotUrl u st = st\<lparr>plotUrl_cell := u\<rparr>"

definition cells_of :: "HomeState \<Rightarrow> HomeCells" where
  "cells_of st =
     \<lparr>loading_cell = loading st,
      error_cell = (case error st of None \<Rightarrow> JNull | Some s \<Rightarrow> JStr s),
      predictions_cell = JArr (map js_of_Prediction (predictions st)),
      plotUrl_cell = plotUrl st,
      currentPage_cell = currentPage st\<rparr>"


section \<open>Retrieval\<close>

text \<open>
  \<^verbatim>\<open>fetch\<close> either rejects or resolves to a response, whatever its status;
  \<^verbatim>\<open>response.json()\<close> rejects on a body that is not JSON and resolves to the value
  the body denotes otherwise, of whatever shape. The status is carried along, and
  nothing below reads it, as nothing in the source does.
\<close>

datatype payload = Unparsable | Json jsval

record Response =
  status :: nat
  body :: payload

type_synonym network = "string \<Rightarrow> exn + Response"

definition json :: "Response \<Rightarrow> exn + jsval" where
  "json response =
     (case body response of Unparsable \<Rightarrow> Inl SyntaxError | Json d \<Rightarrow> Inr d)"

text \<open>
  The \<^verbatim>\<open>try\<close> block of \<^verbatim>\<open>fetchPredictions\<close>: the state it has reached, and the
  exception that left it, if any. A setter that ran before the exception has run.
\<close>

definition tryBlock ::
  "(jsval \<Rightarrow> exn + string) \<Rightarrow> network \<Rightarrow> HomeCells \<Rightarrow> (exn + unit) \<times> HomeCells" where
  "tryBlock conv fetch st =
     (case fetch ''http://localhost:5000/api/predictions'' of
        Inl e \<Rightarrow> (Inl e, st)
      | Inr response \<Rightarrow>
          (case json response of
             Inl e \<Rightarrow> (Inl e, st)
           | Inr d \<Rightarrow>
               (case property d ''success'' of
                  Inl e \<Rightarrow> (Inl e, st)
                | Inr flag \<Rightarrow>
                    if truthy flag
                    then (case property d ''predictions'' of
                            Inl e \<Rightarrow> (Inl e, st)
                          | Inr ps \<Rightarrow>
                              (case property d ''plot_url'' of
                                 Inl e \<Rightarrow> (Inl e, setPredictions ps st)
                               | Inr u \<Rightarrow>
                                   (case templateString conv u of
                                      Inl e \<Rightarrow> (Inl e, setPredictions ps st)
                                    | Inr s \<Rightarrow>
                                        (Inr (),
                                         setPlotUrl (''http://localhost:5000'' @ s)
                                           (setPredictions ps st)))))
                    else (case property d ''message'' of
                            Inl e \<Rightarrow> (Inl e, st)
                          | Inr m \<Rightarrow>
                              (Inr (),
                               setError
                                 (if truthy m then m
                                  else JStr ''Failed to fetch predictions'') st)))))"

text \<open>The whole routine: \<^verbatim>\<open>try\<close>, then \<^verbatim>\<open>catch\<close>, then \<^verbatim>\<open>finally\<close>.\<close>

definition fetchPredictions ::
  "(jsval \<Rightarrow> exn + string) \<Rightarrow> network \<Rightarrow> HomeCells \<Rightarrow> (exn + unit) \<times> HomeCells" where
  "fetchPredictions conv fetch st =
     (let (r, st1) = tryBlock conv fetch st;
          (r', st2) = (case r of
                         Inl err \<Rightarrow>
                           (Inr (), setError (JStr ''Error connecting to the server'') st1)
                       | Inr u \<Rightarrow> (Inr u, st1))
      in (r', setLoading False st2))"

text \<open>\<^verbatim>\<open>config.ts\<close>: the base location chosen by the build mode.\<close>

definition config_apiUrl :: "string option \<Rightarrow> string" where
  "config_apiUrl NODE_ENV =
     (if NODE_ENV = Some ''production''
      then ''https://btc-predictor-backend.onrender.com''
      else ''http://localhost:10000'')"

text \<open>
  A backend that answers at one base location only, with a payload of the declared
  shape, and is unreachable elsewhere.
\<close>

definition backend_at :: "string \<Rightarrow> PredictionResponse \<Rightarrow> network" where
  "backend_at base d =
     (\<lambda>url. if url = base @ ''/api/predictions''
            then Inr \<lparr>status = 200, body = Json (js_of_response d)\<rparr>
            else Inl TypeError)"


section \<open>Presentation\<close>

text \<open>
  This section is the component on a state of the declared types, a series of points;
  the next section is the component on cells of any content, and the two agree on a
  state of the declared types (\<open>render_cells_of\<close> below).

  The \<^verbatim>\<open>data\<close> object of \<^verbatim>\<open>PriceChart\<close>, without its styling fields: the labels and
  the data of each dataset. \<^verbatim>\<open>new Date(s).toLocaleDateString()\<close> depends on the
  locale and is a parameter; it returns a string for every input.
\<close>

record ChartData =
  labels :: "string list"
  datasets :: "real list list"

definition PriceChart_data :: "(string \<Rightarrow> string) \<Rightarrow> Prediction list \<Rightarrow> ChartData" where
  "PriceChart_data toLocaleDateString ps =
     \<lparr>labels = map (\<lambda>p. toLocaleDateString (Date p)) ps,
      datasets = [map (\<lambda>p. Predicted_Price p) ps]\<rparr>"

text \<open>
  What \<^verbatim>\<open>Home\<close> returns: the spinner, the error message, or the page with the chart
  and the rows of the table body (date cell, price cell). The page count and the
  closure for the current items are bound before the branches, as in the source;
  \<^verbatim>\<open>if (error)\<close> is false for \<^verbatim>\<open>null\<close> and for the empty string. The number
  formatting of \<^verbatim>\<open>toLocaleString\<close> depends on the locale and is a parameter.
\<close>

datatype view = Loader | ErrorView string | Ready ChartData "(string \<times> string) list"

definition Home ::
  "(string \<Rightarrow> string) \<Rightarrow> (real \<Rightarrow> string) \<Rightarrow> int \<Rightarrow> HomeState \<Rightarrow> view" where
  "Home toLocaleDateString toLocaleString pageSize st =
     (let pageCount = totalPages (predictions st) pageSize;
          currentItems = (\<lambda>u::unit. getCurrentItems (predictions st) (currentPage st) pageSize);
          page = Ready (PriceChart_data toLocaleDateString (predictions st))
                   (map (\<lambda>d. (toLocaleDateString (Date d),
                               ''$'' @ toLocaleString (Predicted_Price d)))
                      (predictions st))
      in if loading st then Loader
         else case error st of
                None \<Rightarrow> page
              | Some e \<Rightarrow> if e = [] then page else ErrorView e)"

fun tableRows :: "view \<Rightarrow> (string \<times> string) list" where
  "tableRows (Ready c rows) = rows"
| "tableRows v = []"


section \<open>Rendering at run time\<close>

text \<open>
  What a call of \<^verbatim>\<open>Home\<close> does on cells of any content: it throws, or it returns
  the spinner, the error message with the value of the error cell as its child, or the
  page with the value handed to \<^verbatim>\<open>PriceChart\<close> and the rows of the table body.
  Line 48 reads \<^verbatim>\<open>predictions.length\<close> before any branch, which throws on
  \<^verbatim>\<open>undefined\<close> and \<^verbatim>\<open>null\<close>; its result reaches nothing. Only an array has a
  \<^verbatim>\<open>map\<close> to call. \<^verbatim>\<open>Array.prototype.map\<close> calls the row function in index order
  and stops at the first exception. The two formatters are the language's and the
  locale's, may throw, and are parameters; reading \<^verbatim>\<open>toLocaleString\<close> off an
  \<^verbatim>\<open>undefined\<close> or \<^verbatim>\<open>null\<close> price throws. The cells are read once the routine
  has run all its setters. What the framework draws for the returned element is not
  part of the component.
\<close>

fun traverse :: "('a \<Rightarrow> exn + 'b) \<Rightarrow> 'a list \<Rightarrow> exn + 'b list" where
  "traverse f [] = Inr []"
| "traverse f (x # xs) =
     (case f x of
        Inl e \<Rightarrow> Inl e
      | Inr y \<Rightarrow> (case traverse f xs of Inl e \<Rightarrow> Inl e | Inr ys \<Rightarrow> Inr (y # ys)))"

definition tableRow ::
  "(jsval \<Rightarrow> exn + string) \<Rightarrow> (jsval \<Rightarrow> exn + string) \<Rightarrow> jsval \<Rightarrow> exn + string \<times> string" where
  "tableRow toLocaleDateString toLocaleString d =
     (case property d ''Date'' of
        Inl e \<Rightarrow> Inl e
      | Inr date \<Rightarrow>
          (case toLocaleDateString date of
             Inl e \<Rightarrow> Inl e
           | Inr dateCell \<Rightarrow>
               (case property d ''Predicted_Price'' of
                  Inl e \<Rightarrow> Inl e
                | Inr price \<Rightarrow>
                    if price = JUndefined \<or> price = JNull then Inl TypeError
                    else (case toLocaleString price of
                            Inl e \<Rightarrow> Inl e
                          | Inr priceCell \<Rightarrow> Inr (dateCell, ''$'' @ priceCell)))))"

datatype element = Spinner | Message jsval | Page jsval "(string \<times> string) list"

definition render ::
  "(jsval \<Rightarrow> exn + string) \<Rightarrow> (jsval \<Rightarrow> exn + string) \<Rightarrow> HomeCells \<Rightarrow> exn + element" where
  "render toLocaleDateString toLocaleString c =
     (if predictions_cell c = JUndefined \<or> predictions_cell c = JNull then Inl TypeError
      else if loading_cell c then Inr Spinner
      else if truthy (error_cell c) then Inr (Message (error_cell c))
      else (case predictions_cell c of
              JArr ps \<Rightarrow>
                (case traverse (tableRow toLocaleDateString toLocaleString) ps of
                   Inl e \<Rightarrow> Inl e
                 | Inr rows \<Rightarrow> Inr (Page (predictions_cell c) rows))
            | _ \<Rightarrow> Inl TypeError))"

text \<open>
  The element that stands for a view of \<open>Home\<close> on a state of the declared types.
\<close>

definition element_of :: "HomeState \<Rightarrow> view \<Rightarrow> element" where
  "element_of st v =
     (case v of
        Loader \<Rightarrow> Spinner
      | ErrorView e \<Rightarrow> Message (JStr e)
      | Ready c rows \<Rightarrow> Page (JArr (map js_of_Prediction (predictions st))) rows)"


section \<open>Facts about slicing and the page count\<close>

lemma nat_max_zero: "nat (max (x::int) 0) = nat x"
  by (simp add: max_def)

lemma slice_nonneg:
  assumes "0 \<le> s" and "0 \<le> e"
  shows "slice xs s e = take (nat (e - s)) (drop (nat s) xs)"
proof -
  let ?L = "int (length xs)"
  have ns: "\<not> s < 0" and ne: "\<not> e < 0" using assms by simp_all
  have sl: "slice xs s e = take (nat (min e ?L - min s ?L)) (drop (nat (min s ?L)) xs)"
    using ns ne by (simp add: slice_def Let_def nat_max_zero)
  show ?thesis
  proof (cases "s \<le> ?L")
    case True
    then have k: "min s ?L = s" by simp
    show ?thesis
    proof (cases "e \<le> ?L")
      case True
      then have "min e ?L = e" by simp
      with k sl show ?thesis by simp
    next
      case False
      then have f: "min e ?L = ?L" by simp
      have "length (drop (nat s) xs) \<le> nat (?L - s)" using assms(1) by simp
      then have a: "take (nat (?L - s)) (drop (nat s) xs) = drop (nat s) xs"
        by (rule take_all)
      have "length (drop (nat s) xs) \<le> nat (e - s)" using assms(1) False by simp
      then have b: "take (nat (e - s)) (drop (nat s) xs) = drop (nat s) xs"
        by (rule take_all)
      from sl k f a b show ?thesis by simp
    qed
  next
    case False
    then have a: "drop (nat s) xs = []" by simp
    have b: "drop (nat (min s ?L)) xs = []" using False by simp
    show ?thesis unfolding sl a b by simp
  qed
qed

lemma totalPages_bounds:
  assumes "0 < p"
  shows "int (length xs) \<le> totalPages xs p * p"
    and "(totalPages xs p - 1) * p < int (length xs)"
proof -
  let ?q = "real (length xs) / real_of_int p"
  have pp: "0 < real_of_int p" using assms by simp
  have "?q \<le> real_of_int \<lceil>?q\<rceil>" by (rule le_of_int_ceiling)
  then have "real (length xs) \<le> real_of_int \<lceil>?q\<rceil> * real_of_int p"
    by (rule iffD1[OF pos_divide_le_eq[OF pp]])
  then have "real_of_int (int (length xs)) \<le> real_of_int (\<lceil>?q\<rceil> * p)" by simp
  then show "int (length xs) \<le> totalPages xs p * p"
    unfolding totalPages_def by (simp only: of_int_le_iff)
  have "real_of_int \<lceil>?q\<rceil> - 1 < ?q" by (rule ceiling_correct [THEN conjunct1])
  then have "(real_of_int \<lceil>?q\<rceil> - 1) * real_of_int p < real (length xs)"
    by (rule iffD1[OF pos_less_divide_eq[OF pp]])
  then have "real_of_int ((\<lceil>?q\<rceil> - 1) * p) < real_of_int (int (length xs))" by simp
  then show "(totalPages xs p - 1) * p < int (length xs)"
    unfolding totalPages_def by (simp only: of_int_less_iff)
qed

lemma totalPages_nonneg:
  assumes "0 < p"
  shows "0 \<le> totalPages xs p"
proof (rule ccontr)
  assume "\<not> 0 \<le> totalPages xs p"
  then have "totalPages xs p \<le> - 1" by simp
  then have "totalPages xs p * p \<le> - 1 * p" using assms by (intro mult_right_mono) simp_all
  with totalPages_bounds(1)[OF assms, of xs] assms show False by simp
qed

lemma totalPages_unique:
  assumes "0 < p" and "int (length xs) \<le> n * p" and "(n - 1) * p < int (length xs)"
  shows "totalPages xs p = n"
proof -
  let ?t = "totalPages xs p"
  have a: "(?t - 1) * p < n * p"
    using totalPages_bounds(2)[OF assms(1), of xs] assms(2) by simp
  have b: "(n - 1) * p < ?t * p"
    using totalPages_bounds(1)[OF assms(1), of xs] assms(3) by simp
  from a assms(1) have "?t - 1 < n" by (simp add: mult_less_cancel_right)
  moreover from b assms(1) have "n - 1 < ?t" by (simp add: mult_less_cancel_right)
  ultimately show ?thesis by simp
qed

lemma totalPages_div:
  assumes "0 < p"
  shows "totalPages xs p = (int (length xs) + p - 1) div p"
proof -
  let ?L = "int (length xs)"
  let ?n = "(?L + p - 1) div p"
  have m: "?n * p = (?L + p - 1) - (?L + p - 1) mod p"
    by (rule minus_mod_eq_div_mult [symmetric])
  have r0: "0 \<le> (?L + p - 1) mod p" and r1: "(?L + p - 1) mod p < p"
    using assms by simp_all
  have "?L \<le> ?n * p" using m r1 by simp
  moreover have "(?n - 1) * p < ?L"
  proof -
    have "(?n - 1) * p = ?n * p - p" by (simp add: algebra_simps)
    with m r0 show ?thesis by linarith
  qed
  ultimately show ?thesis using assms by (intro totalPages_unique) simp_all
qed

lemma getCurrentItems_in_range:
  assumes "0 < p"
  shows "getCurrentItems xs (int i) p = take (nat p) (drop (i * nat p) xs)"
proof -
  have s0: "0 \<le> int i * p" using assms by simp
  then have e0: "0 \<le> int i * p + p" using assms by linarith
  have n: "nat (int i * p) = i * nat p" using assms by (simp add: nat_mult_distrib)
  have "getCurrentItems xs (int i) p = slice xs (int i * p) (int i * p + p)"
    by (simp add: getCurrentItems_def Let_def)
  also have "\<dots> = take (nat (int i * p + p - int i * p)) (drop (nat (int i * p)) xs)"
    by (rule slice_nonneg[OF s0 e0])
  also have "\<dots> = take (nat p) (drop (i * nat p) xs)"
    unfolding n by simp
  finally show ?thesis .
qed

lemma concat_pages_take:
  "concat (map (\<lambda>i. take n (drop (i * n) xs)) [0..<m]) = take (m * n) xs"
proof (induction m)
  case 0
  show ?case by simp
next
  case (Suc m)
  have e: "Suc m * n = m * n + n" by simp
  have "take (m * n + n) xs = take (m * n) xs @ take n (drop (m * n) xs)"
    by (rule take_add)
  with Suc show ?case unfolding e by simp
qed


section \<open>The pages of the paginator\<close>

text \<open>
  C1. For every series and every page size above zero, the slices that
  \<open>getCurrentItems\<close> returns for the page indices \<open>0, 1, \<dots>, totalPages - 1\<close>, put one
  after the other in index order, are the series itself: no point twice, none missing.
\<close>

theorem pages_concat_is_series:
  assumes "0 < pageSize"
  shows "concat (map (\<lambda>i. getCurrentItems ps (int i) pageSize)
           [0..<nat (totalPages ps pageSize)]) = ps"
proof -
  let ?m = "nat (totalPages ps pageSize)"
  have "int (length ps) \<le> totalPages ps pageSize * pageSize"
    by (rule totalPages_bounds(1)[OF assms])
  also have "\<dots> = int (?m * nat pageSize)"
    using assms totalPages_nonneg[OF assms, of ps] by simp
  finally have len: "length ps \<le> ?m * nat pageSize" by (simp only: of_nat_le_iff)
  have "concat (map (\<lambda>i. getCurrentItems ps (int i) pageSize) [0..<?m])
        = concat (map (\<lambda>i. take (nat pageSize) (drop (i * nat pageSize) ps)) [0..<?m])"
    by (simp only: getCurrentItems_in_range[OF assms])
  also have "\<dots> = take (?m * nat pageSize) ps"
    by (rule concat_pages_take)
  also have "\<dots> = ps" using len by simp
  finally show ?thesis .
qed

theorem pages_concat_is_series_witness:
  "(0::int) < 8 \<and>
   concat (map (\<lambda>i. getCurrentItems [1,2,3,4,5,6,7,8,9,10,11,12,13,14,15,16,17::nat] (int i) 8)
     [0..<nat (totalPages [1,2,3,4,5,6,7,8,9,10,11,12,13,14,15,16,17::nat] 8)])
   = [1,2,3,4,5,6,7,8,9,10,11,12,13,14,15,16,17]"
  using pages_concat_is_series [of 8 "[1,2,3,4,5,6,7,8,9,10,11,12,13,14,15,16,17::nat]"]
  by simp


section \<open>The page count\<close>

text \<open>
  C6. For every series of length \<open>L\<close> and every page size above zero, \<open>totalPages\<close> is
  the ceiling of \<open>L\<close> divided by the page size: the one integer \<open>n\<close> with
  \<open>(n - 1) * pageSize < L \<le> n * pageSize\<close>, also \<open>(L + pageSize - 1) div pageSize\<close>.
  It is zero for the empty series.
\<close>

theorem totalPages_is_ceiling:
  assumes "0 < pageSize"
  shows "totalPages ps pageSize = \<lceil>real (length ps) / real_of_int pageSize\<rceil>
       \<and> int (length ps) \<le> totalPages ps pageSize * pageSize
       \<and> (totalPages ps pageSize - 1) * pageSize < int (length ps)
       \<and> totalPages ps pageSize = (int (length ps) + pageSize - 1) div pageSize
       \<and> (ps = [] \<longrightarrow> totalPages ps pageSize = 0)"
proof -
  have "ps = [] \<longrightarrow> totalPages ps pageSize = 0"
    by (simp add: totalPages_def)
  with totalPages_bounds[OF assms, of ps] totalPages_div[OF assms, of ps]
  show ?thesis by (simp add: totalPages_def)
qed

theorem totalPages_is_ceiling_witness:
  "(0::int) < 8
   \<and> totalPages [1,2,3,4,5,6,7,8,9,10,11,12,13,14,15,16,17::nat] 8 = 3
   \<and> totalPages ([]::nat list) 8 = 0"
  using totalPages_is_ceiling [of 8 "[1,2,3,4,5,6,7,8,9,10,11,12,13,14,15,16,17::nat]"]
    totalPages_is_ceiling [of 8 "[]::nat list"]
  by simp


section \<open>Page indices out of range\<close>

text \<open>
  C3, as the specification states it, fails: the page index is not clamped. With nine
  points and pages of eight there are two pages; page index 2 gives the empty slice, not
  the last page, and page index -1 gives the empty slice, not page 0.
\<close>

theorem out_of_range_not_clamped:
  "totalPages [1,2,3,4,5,6,7,8,9::nat] 8 = 2
   \<and> getCurrentItems [1,2,3,4,5,6,7,8,9::nat] 2 8 = []
   \<and> getCurrentItems [1,2,3,4,5,6,7,8,9::nat] (totalPages [1,2,3,4,5,6,7,8,9::nat] 8 - 1) 8 = [9]
   \<and> getCurrentItems [1,2,3,4,5,6,7,8,9::nat] (- 1) 8 = []
   \<and> getCurrentItems [1,2,3,4,5,6,7,8,9::nat] 0 8 = [1,2,3,4,5,6,7,8]"
  by (simp add: totalPages_def getCurrentItems_def slice_def)

text \<open>
  C3, amended. For every series and every page size above zero, \<open>getCurrentItems\<close>
  returns a slice for a page index out of range too (it has no failing branch), and
  does not clamp: a page index of \<open>totalPages\<close> or more gives the empty slice, also for
  the empty series; page index -1 gives the empty slice; a page index below -1 gives
  the points from position \<open>max (L + page * pageSize) 0\<close> up to, not including, position
  \<open>max (L + (page + 1) * pageSize) 0\<close>, the bounds counting from the end of the series.
\<close>

theorem out_of_range_pages:
  assumes "0 < pageSize"
  shows "(totalPages ps pageSize \<le> page \<longrightarrow> getCurrentItems ps page pageSize = [])
       \<and> (page = - 1 \<longrightarrow> getCurrentItems ps page pageSize = [])
       \<and> (page < - 1 \<longrightarrow> getCurrentItems ps page pageSize =
            take (nat (max (int (length ps) + (page + 1) * pageSize) 0)
                    - nat (max (int (length ps) + page * pageSize) 0))
              (drop (nat (max (int (length ps) + page * pageSize) 0)) ps))"
proof (intro conjI impI)
  let ?L = "int (length ps)"
  assume above: "totalPages ps pageSize \<le> page"
  have p0: "0 \<le> page" using totalPages_nonneg[OF assms, of ps] above by simp
  have "?L \<le> totalPages ps pageSize * pageSize" by (rule totalPages_bounds(1)[OF assms])
  also have "\<dots> \<le> page * pageSize" using above assms by (intro mult_right_mono) simp_all
  finally have far: "?L \<le> page * pageSize" .
  have s0: "0 \<le> page * pageSize" using p0 assms by simp
  then have e0: "0 \<le> page * pageSize + pageSize" using assms by linarith
  have "length ps \<le> nat (page * pageSize)" using far by simp
  then have d: "drop (nat (page * pageSize)) ps = []" by simp
  have "getCurrentItems ps page pageSize = slice ps (page * pageSize) (page * pageSize + pageSize)"
    by (simp add: getCurrentItems_def Let_def)
  also have "\<dots> = []" unfolding slice_nonneg[OF s0 e0] d by simp
  finally show "getCurrentItems ps page pageSize = []" .
next
  assume "page = - 1"
  then show "getCurrentItems ps page pageSize = []"
    using assms by (simp add: getCurrentItems_def slice_def Let_def)
next
  let ?L = "int (length ps)"
  assume below: "page < - 1"
  then have "page + 1 \<le> - 1" by simp
  then have "(page + 1) * pageSize \<le> - 1 * pageSize" using assms by (intro mult_right_mono) simp_all
  then have e: "page * pageSize + pageSize < 0" using assms by (simp add: algebra_simps)
  then have s: "page * pageSize < 0" using assms by linarith
  have eq: "(page + 1) * pageSize = page * pageSize + pageSize" by (simp add: algebra_simps)
  have mono: "max (?L + page * pageSize) 0 \<le> max (?L + (page * pageSize + pageSize)) 0"
    using assms by simp
  have "getCurrentItems ps page pageSize = slice ps (page * pageSize) (page * pageSize + pageSize)"
    by (simp add: getCurrentItems_def Let_def)
  also have "\<dots> = take (nat (max (?L + (page * pageSize + pageSize)) 0 - max (?L + page * pageSize) 0))
       (drop (nat (max (?L + page * pageSize) 0)) ps)"
    using s e by (simp add: slice_def Let_def nat_max_zero)
  also have "nat (max (?L + (page * pageSize + pageSize)) 0 - max (?L + page * pageSize) 0)
      = nat (max (?L + (page * pageSize + pageSize)) 0) - nat (max (?L + page * pageSize) 0)"
    by (simp add: nat_diff_distrib')
  finally show "getCurrentItems ps page pageSize =
            take (nat (max (int (length ps) + (page + 1) * pageSize) 0)
                    - nat (max (int (length ps) + page * pageSize) 0))
              (drop (nat (max (int (length ps) + page * pageSize) 0)) ps)"
    unfolding eq .
qed

theorem out_of_range_pages_witness:
  "(0::int) < 8
   \<and> getCurrentItems [1,2,3,4,5,6,7,8,9::nat] 2 8 = []
   \<and> getCurrentItems ([]::nat list) 0 8 = []
   \<and> getCurrentItems [1,2,3,4,5,6,7,8,9::nat] (- 1) 8 = []
   \<and> getCurrentItems [1,2,3,4,5,6,7,8,9,10,11,12,13,14,15,16,17::nat] (- 2) 8 = [2,3,4,5,6,7,8,9]"
  using out_of_range_pages [of 8 "[1,2,3,4,5,6,7,8,9::nat]" 2]
    out_of_range_pages [of 8 "[]::nat list" 0]
    out_of_range_pages [of 8 "[1,2,3,4,5,6,7,8,9::nat]" "- 1"]
    out_of_range_pages [of 8 "[1,2,3,4,5,6,7,8,9,10,11,12,13,14,15,16,17::nat]" "- 2"]
  by (simp add: totalPages_def)


section \<open>Facts about the retrieval and the view\<close>

lemma Home_ready:
  assumes "\<not> loading st" and "error st = None \<or> error st = Some []"
  shows "Home f g n st =
           Ready (PriceChart_data f (predictions st))
             (map (\<lambda>d. (f (Date d), ''$'' @ g (Predicted_Price d))) (predictions st))"
  using assms by (auto simp add: Home_def Let_def)

lemma Home_error:
  assumes "\<not> loading st" and "error st = Some e" and "e \<noteq> []"
  shows "Home f g n st = ErrorView e"
  using assms by (simp add: Home_def Let_def)

lemma fetchPredictions_rejected:
  assumes "fetch ''http://localhost:5000/api/predictions'' = Inl e"
  shows "fetchPredictions conv fetch st =
           (Inr (), st\<lparr>error_cell := JStr ''Error connecting to the server'',
                        loading_cell := False\<rparr>)"
  using assms by (simp add: fetchPredictions_def tryBlock_def setError_def setLoading_def)

lemma fetchPredictions_unparsable:
  assumes "fetch ''http://localhost:5000/api/predictions'' = Inr response"
    and "body response = Unparsable"
  shows "fetchPredictions conv fetch st =
           (Inr (), st\<lparr>error_cell := JStr ''Error connecting to the server'',
                        loading_cell := False\<rparr>)"
  using assms
  by (simp add: fetchPredictions_def tryBlock_def json_def setError_def setLoading_def)

lemma fetchPredictions_null:
  assumes "fetch ''http://localhost:5000/api/predictions'' = Inr response"
    and "body response = Json JNull"
  shows "fetchPredictions conv fetch st =
           (Inr (), st\<lparr>error_cell := JStr ''Error connecting to the server'',
                        loading_cell := False\<rparr>)"
  using assms
  by (simp add: fetchPredictions_def tryBlock_def json_def property_def setError_def
      setLoading_def)

lemma fetchPredictions_falsy_flag:
  assumes "fetch ''http://localhost:5000/api/predictions'' = Inr response"
    and "body response = Json d"
    and "property d ''success'' = Inr flag" and "\<not> truthy flag"
    and "property d ''message'' = Inr m"
  shows "fetchPredictions conv fetch st =
           (Inr (), st\<lparr>error_cell := (if truthy m then m
                                       else JStr ''Failed to fetch predictions''),
                        loading_cell := False\<rparr>)"
  using assms
  by (simp add: fetchPredictions_def tryBlock_def json_def setError_def setLoading_def)

lemma property_js_of_response:
  "property (js_of_response d) ''success'' = Inr (JBool (success d))"
  "property (js_of_response d) ''predictions''
     = Inr (JArr (map js_of_Prediction (PredictionResponse.predictions d)))"
  "property (js_of_response d) ''plot_url'' = Inr (JStr (plot_url d))"
  "property (js_of_response d) ''message''
     = Inr (case message d of None \<Rightarrow> JUndefined | Some m \<Rightarrow> JStr m)"
  by (simp_all add: property_def js_of_response_def split: option.splits)

lemma fetchPredictions_declared_success:
  assumes "fetch ''http://localhost:5000/api/predictions'' = Inr response"
    and "body response = Json (js_of_response d)" and "success d"
  shows "fetchPredictions conv fetch st =
           (Inr (), st\<lparr>predictions_cell :=
                          JArr (map js_of_Prediction (PredictionResponse.predictions d)),
                        plotUrl_cell := ''http://localhost:5000'' @ plot_url d,
                        loading_cell := False\<rparr>)"
  using assms
  by (simp add: fetchPredictions_def tryBlock_def json_def property_js_of_response truthy_def
      templateString_def setPredictions_def setPlotUrl_def setLoading_def)

lemma fetchPredictions_returns: "fst (fetchPredictions conv fetch st) = Inr ()"
  by (simp add: fetchPredictions_def tryBlock_def Let_def split: sum.splits prod.splits)

lemma fetchPredictions_not_loading: "\<not> loading_cell (snd (fetchPredictions conv fetch st))"
  by (simp add: fetchPredictions_def setLoading_def Let_def split: sum.splits prod.splits)

lemma fetchPredictions_body_only:
  assumes "fetch ''http://localhost:5000/api/predictions'' = Inr response"
    and "fetch' ''http://localhost:5000/api/predictions'' = Inr response'"
    and "body response = body response'"
  shows "fetchPredictions conv fetch st = fetchPredictions conv fetch' st"
  using assms by (simp add: fetchPredictions_def tryBlock_def json_def)

lemma render_message:
  assumes "predictions_cell c = JArr ps" and "\<not> loading_cell c" and "truthy (error_cell c)"
  shows "render F G c = Inr (Message (error_cell c))"
  using assms by (simp add: render_def)

lemma truthy_fallback:
  "truthy (if truthy m then m else JStr ''Failed to fetch predictions'')"
  by (simp add: truthy_def)

lemma traverse_declared:
  assumes "\<And>s. F (JStr s) = Inr (f s)" and "\<And>x. G (JNum x) = Inr (g x)"
  shows "traverse (tableRow F G) (map js_of_Prediction ps)
           = Inr (map (\<lambda>p. (f (Date p), ''$'' @ g (Predicted_Price p))) ps)"
proof (induction ps)
  case Nil
  show ?case by simp
next
  case (Cons p ps)
  have "tableRow F G (js_of_Prediction p) = Inr (f (Date p), ''$'' @ g (Predicted_Price p))"
    by (simp add: tableRow_def js_of_Prediction_def property_def assms)
  with Cons show ?case by simp
qed

lemma render_declared_page:
  assumes "\<And>s. F (JStr s) = Inr (f s)" and "\<And>x. G (JNum x) = Inr (g x)"
    and "predictions_cell c = JArr (map js_of_Prediction ps)"
    and "\<not> loading_cell c" and "\<not> truthy (error_cell c)"
  shows "render F G c
           = Inr (Page (JArr (map js_of_Prediction ps))
                    (map (\<lambda>p. (f (Date p), ''$'' @ g (Predicted_Price p))) ps))"
  using assms(3,4,5) traverse_declared[of F f G g ps, OF assms(1,2)]
  by (simp add: render_def)

text \<open>
  On a state of the declared types, with formatters that agree on strings and on
  numbers, the call of \<open>Home\<close> at run time returns the element of the view \<open>Home\<close>.
\<close>

lemma render_cells_of:
  assumes "\<And>s. F (JStr s) = Inr (f s)" and "\<And>x. G (JNum x) = Inr (g x)"
  shows "render F G (cells_of st) = Inr (element_of st (Home f g n st))"
proof (cases "loading st")
  case True
  then show ?thesis by (simp add: render_def cells_of_def element_of_def Home_def Let_def)
next
  case False
  show ?thesis
  proof (cases "error st = None \<or> error st = Some []")
    case True
    have h: "Home f g n st =
           Ready (PriceChart_data f (predictions st))
             (map (\<lambda>d. (f (Date d), ''$'' @ g (Predicted_Price d))) (predictions st))"
      using False True by (rule Home_ready)
    have "\<not> truthy (error_cell (cells_of st))"
      using True by (auto simp add: cells_of_def truthy_def)
    moreover have "predictions_cell (cells_of st) = JArr (map js_of_Prediction (predictions st))"
      and "\<not> loading_cell (cells_of st)" using False by (simp_all add: cells_of_def)
    ultimately have "render F G (cells_of st)
           = Inr (Page (JArr (map js_of_Prediction (predictions st)))
                    (map (\<lambda>p. (f (Date p), ''$'' @ g (Predicted_Price p))) (predictions st)))"
      using assms by (intro render_declared_page) simp_all
    then show ?thesis unfolding h by (simp add: element_of_def)
  next
    case nonempty: False
    then obtain e where e: "error st = Some e" "e \<noteq> []" by (cases "error st") auto
    have h: "Home f g n st = ErrorView e" using False e by (rule Home_error)
    have "render F G (cells_of st) = Inr (Message (JStr e))"
      using False e by (simp add: render_def cells_of_def truthy_def)
    then show ?thesis unfolding h by (simp add: element_of_def)
  qed
qed

lemma render_connection_error:
  "render F G (initialState\<lparr>error_cell := JStr ''Error connecting to the server'',
                              loading_cell := False\<rparr>)
     = Inr (Message (JStr ''Error connecting to the server''))"
  by (simp add: render_def initialState_def truthy_def)

lemma render_reported_error:
  "render F G (initialState\<lparr>error_cell := (if truthy m then m
                                               else JStr ''Failed to fetch predictions''),
                              loading_cell := False\<rparr>)
     = Inr (Message (if truthy m then m else JStr ''Failed to fetch predictions''))"
  using truthy_fallback[of m]
    render_message[of "initialState\<lparr>error_cell := (if truthy m then m
                                               else JStr ''Failed to fetch predictions''),
                              loading_cell := False\<rparr>" "[]" F G]
  by (simp add: initialState_def)


section \<open>A payload that reports failure\<close>

text \<open>
  C4, as the specification states it, fails: for a payload with the success flag false
  and no message, the error shown is \<open>Failed to fetch predictions\<close>, not the text about
  connecting to the server.
\<close>

theorem server_failure_fallback_text:
  "render (\<lambda>v. Inr ''1/1/2024'') (\<lambda>v. Inr ''0.00'')
     (snd (fetchPredictions (\<lambda>v. Inl TypeError)
        (\<lambda>url. Inr \<lparr>status = 200, body = Json (JObj [(''success'', JBool False)])\<rparr>)
        initialState))
   = Inr (Message (JStr ''Failed to fetch predictions''))
   \<and> error_cell (snd (fetchPredictions (\<lambda>v. Inl TypeError)
        (\<lambda>url. Inr \<lparr>status = 200, body = Json (JObj [(''success'', JBool False)])\<rparr>)
        initialState))
     \<noteq> JStr ''Error connecting to the server''"
  by (simp add: render_def fetchPredictions_def tryBlock_def json_def property_def truthy_def
      initialState_def setError_def setLoading_def)

text \<open>
  C4, amended. When the payload has the success flag false (or falsy in another way),
  the routine ends without an exception, \<open>loading\<close> is false and the error cell holds
  the message of the backend when that is present and truthy, for a string: not empty,
  and \<open>Failed to fetch predictions\<close> when it is absent, \<open>null\<close>, empty or falsy in
  another way; the view, after the routine has run on the initial state, is the error
  message with that value. The payload with the message \<open>model not trained\<close> gives the
  error view with that message.
\<close>

theorem server_reported_failure:
  assumes "fetch ''http://localhost:5000/api/predictions'' = Inr response"
    and "body response = Json d"
    and "property d ''success'' = Inr flag" and "\<not> truthy flag"
    and "property d ''message'' = Inr m"
  shows "fst (fetchPredictions conv fetch st) = Inr ()
       \<and> \<not> loading_cell (snd (fetchPredictions conv fetch st))
       \<and> (truthy m \<longrightarrow>
            error_cell (snd (fetchPredictions conv fetch st)) = m
            \<and> render F G (snd (fetchPredictions conv fetch initialState)) = Inr (Message m))
       \<and> (\<not> truthy m \<longrightarrow>
            error_cell (snd (fetchPredictions conv fetch st))
              = JStr ''Failed to fetch predictions''
            \<and> render F G (snd (fetchPredictions conv fetch initialState))
              = Inr (Message (JStr ''Failed to fetch predictions'')))
       \<and> (m = JStr s \<and> s \<noteq> [] \<longrightarrow> truthy m)
       \<and> (m = JUndefined \<or> m = JNull \<or> m = JStr [] \<longrightarrow> \<not> truthy m)"
proof -
  let ?msg = "if truthy m then m else JStr ''Failed to fetch predictions''"
  have r: "fetchPredictions conv fetch st
             = (Inr (), st\<lparr>error_cell := ?msg, loading_cell := False\<rparr>)" for st
    using assms by (rule fetchPredictions_falsy_flag)
  have v: "render F G (initialState\<lparr>error_cell := ?msg, loading_cell := False\<rparr>)
             = Inr (Message ?msg)"
    using truthy_fallback[of m]
      render_message[of "initialState\<lparr>error_cell := ?msg, loading_cell := False\<rparr>" "[]" F G]
    by (simp add: initialState_def)
  have t: "(m = JStr s \<and> s \<noteq> [] \<longrightarrow> truthy m)
           \<and> (m = JUndefined \<or> m = JNull \<or> m = JStr [] \<longrightarrow> \<not> truthy m)"
    by (auto simp add: truthy_def)
  show ?thesis unfolding r fst_conv snd_conv using v t by (cases "truthy m") simp_all
qed

theorem server_reported_failure_witness:
  "render (\<lambda>v. Inr ''1/1/2024'') (\<lambda>v. Inr ''0.00'')
     (snd (fetchPredictions (\<lambda>v. Inl TypeError)
        (\<lambda>url. Inr \<lparr>status = 200,
           body = Json (JObj [(''success'', JBool False),
                              (''message'', JStr ''model not trained'')])\<rparr>)
        initialState))
   = Inr (Message (JStr ''model not trained''))
   \<and> render (\<lambda>v. Inr ''1/1/2024'') (\<lambda>v. Inr ''0.00'')
     (snd (fetchPredictions (\<lambda>v. Inl TypeError)
        (\<lambda>url. Inr \<lparr>status = 200,
           body = Json (JObj [(''success'', JBool False), (''message'', JStr [])])\<rparr>)
        initialState))
   = Inr (Message (JStr ''Failed to fetch predictions''))"
  using server_reported_failure
    [where fetch = "\<lambda>url. Inr \<lparr>status = 200,
           body = Json (JObj [(''success'', JBool False),
                              (''message'', JStr ''model not trained'')])\<rparr>"
       and response = "\<lparr>status = 200,
           body = Json (JObj [(''success'', JBool False),
                              (''message'', JStr ''model not trained'')])\<rparr>"
       and d = "JObj [(''success'', JBool False), (''message'', JStr ''model not trained'')]"
       and flag = "JBool False" and m = "JStr ''model not trained''"
       and s = "''model not trained''" and st = initialState
       and conv = "\<lambda>v. Inl TypeError"
       and F = "\<lambda>v. Inr ''1/1/2024''" and G = "\<lambda>v. Inr ''0.00''"]
    server_reported_failure
    [where fetch = "\<lambda>url. Inr \<lparr>status = 200,
           body = Json (JObj [(''success'', JBool False), (''message'', JStr [])])\<rparr>"
       and response = "\<lparr>status = 200,
           body = Json (JObj [(''success'', JBool False), (''message'', JStr [])])\<rparr>"
       and d = "JObj [(''success'', JBool False), (''message'', JStr [])]"
       and flag = "JBool False" and m = "JStr []"
       and s = "[]" and st = initialState
       and conv = "\<lambda>v. Inl TypeError"
       and F = "\<lambda>v. Inr ''1/1/2024''" and G = "\<lambda>v. Inr ''0.00''"]
  by (simp add: property_def truthy_def)


section \<open>The base location\<close>

text \<open>
  C5. The claim is that the request goes to the base location of \<open>config_apiUrl\<close> and
  that the chart source is that base location followed by \<open>plot_url\<close>. The routine uses
  \<open>http://localhost:5000\<close> for both, which is the value of \<open>config_apiUrl\<close> in no build
  mode: with the backend at the configured location, of production or of development,
  the view is the connection error; with the backend at \<open>http://localhost:5000\<close>, the
  chart source is \<open>http://localhost:5000/plot.png\<close>.
\<close>

theorem base_location_is_hard_coded:
  "config_apiUrl (Some ''production'') = ''https://btc-predictor-backend.onrender.com''
   \<and> config_apiUrl None = ''http://localhost:10000''
   \<and> render (\<lambda>v. Inr ''1/1/2024'') (\<lambda>v. Inr ''42,000.50'')
       (snd (fetchPredictions (\<lambda>v. Inl TypeError)
          (backend_at (config_apiUrl (Some ''production''))
             \<lparr>success = True,
              predictions = [\<lparr>Date = ''2024-01-01'', Predicted_Price = 42000.5\<rparr>],
              plot_url = ''/plot.png'', message = None\<rparr>)
          initialState))
     = Inr (Message (JStr ''Error connecting to the server''))
   \<and> render (\<lambda>v. Inr ''1/1/2024'') (\<lambda>v. Inr ''42,000.50'')
       (snd (fetchPredictions (\<lambda>v. Inl TypeError)
          (backend_at (config_apiUrl None)
             \<lparr>success = True,
              predictions = [\<lparr>Date = ''2024-01-01'', Predicted_Price = 42000.5\<rparr>],
              plot_url = ''/plot.png'', message = None\<rparr>)
          initialState))
     = Inr (Message (JStr ''Error connecting to the server''))
   \<and> plotUrl_cell (snd (fetchPredictions (\<lambda>v. Inl TypeError)
          (backend_at ''http://localhost:5000''
             \<lparr>success = True,
              predictions = [\<lparr>Date = ''2024-01-01'', Predicted_Price = 42000.5\<rparr>],
              plot_url = ''/plot.png'', message = None\<rparr>)
          initialState))
     = ''http://localhost:5000/plot.png''"
  by (simp add: render_def fetchPredictions_def tryBlock_def json_def backend_at_def
      js_of_response_def js_of_Prediction_def property_def truthy_def templateString_def
      config_apiUrl_def initialState_def setError_def setLoading_def setPredictions_def
      setPlotUrl_def)


section \<open>Failures of the request\<close>

text \<open>
  C7, as the specification states it, fails: not every failure path ends in the error
  state. A body with the success flag true and no \<open>predictions\<close> is not of the shape
  the component expects; the routine returns normally, stores \<open>undefined\<close> in the
  predictions cell and leaves the error cell \<open>null\<close>, and the next call of \<open>Home\<close>
  throws a TypeError at \<^verbatim>\<open>predictions.length\<close>.
\<close>

theorem success_flag_without_predictions:
  "fetchPredictions (\<lambda>v. Inl TypeError)
     (\<lambda>url. Inr \<lparr>status = 200,
        body = Json (JObj [(''success'', JBool True), (''plot_url'', JStr ''/plot.png'')])\<rparr>)
     initialState
   = (Inr (),
      \<lparr>loading_cell = False, error_cell = JNull, predictions_cell = JUndefined,
       plotUrl_cell = ''http://localhost:5000/plot.png'', currentPage_cell = 0\<rparr>)
   \<and> render (\<lambda>v. Inr ''1/1/2024'') (\<lambda>v. Inr ''42,000.50'')
       (snd (fetchPredictions (\<lambda>v. Inl TypeError)
          (\<lambda>url. Inr \<lparr>status = 200,
             body = Json (JObj [(''success'', JBool True),
                                (''plot_url'', JStr ''/plot.png'')])\<rparr>)
          initialState))
     = Inl TypeError"
  by (simp add: render_def fetchPredictions_def tryBlock_def json_def property_def truthy_def
      templateString_def initialState_def setLoading_def setPredictions_def setPlotUrl_def)

text \<open>
  C7, amended. No exception leaves \<open>fetchPredictions\<close>: for every network, every body
  and every state it returns normally, with \<open>loading\<close> false. When the request is
  rejected before any response, the state is the one before with the error cell set to
  \<open>Error connecting to the server\<close> and \<open>loading\<close> false, and the view, after the
  routine has run on the initial state, is the error message with that text. The other
  failure paths that the routine detects end in the error state too: a body that is not
  JSON and the body \<open>null\<close> with the same text, and a body with a falsy success flag
  with its message when that is truthy and with \<open>Failed to fetch predictions\<close>
  otherwise.
\<close>

theorem no_exception_escapes:
  "fst (fetchPredictions conv fetch st) = Inr ()
   \<and> \<not> loading_cell (snd (fetchPredictions conv fetch st))
   \<and> (fetch ''http://localhost:5000/api/predictions'' = Inl e \<longrightarrow>
        snd (fetchPredictions conv fetch st)
          = st\<lparr>error_cell := JStr ''Error connecting to the server'', loading_cell := False\<rparr>
        \<and> render F G (snd (fetchPredictions conv fetch initialState))
          = Inr (Message (JStr ''Error connecting to the server'')))
   \<and> (fetch ''http://localhost:5000/api/predictions'' = Inr response
        \<and> (body response = Unparsable \<or> body response = Json JNull) \<longrightarrow>
        snd (fetchPredictions conv fetch st)
          = st\<lparr>error_cell := JStr ''Error connecting to the server'', loading_cell := False\<rparr>
        \<and> render F G (snd (fetchPredictions conv fetch initialState))
          = Inr (Message (JStr ''Error connecting to the server'')))
   \<and> (fetch ''http://localhost:5000/api/predictions'' = Inr response
        \<and> body response = Json d
        \<and> property d ''success'' = Inr flag \<and> \<not> truthy flag
        \<and> property d ''message'' = Inr m \<longrightarrow>
        snd (fetchPredictions conv fetch st)
          = st\<lparr>error_cell := (if truthy m then m else JStr ''Failed to fetch predictions''),
               loading_cell := False\<rparr>
        \<and> truthy (error_cell (snd (fetchPredictions conv fetch st)))
        \<and> render F G (snd (fetchPredictions conv fetch initialState))
          = Inr (Message (if truthy m then m else JStr ''Failed to fetch predictions'')))"
proof -
  let ?url = "''http://localhost:5000/api/predictions''"
  let ?gen = "JStr ''Error connecting to the server''"
  let ?msg = "if truthy m then m else JStr ''Failed to fetch predictions''"
  have rej: "snd (fetchPredictions conv fetch st) = st\<lparr>error_cell := ?gen, loading_cell := False\<rparr>
             \<and> render F G (snd (fetchPredictions conv fetch initialState)) = Inr (Message ?gen)"
    if h: "fetch ?url = Inl e"
    using render_connection_error[of F G]
    by (simp add: fetchPredictions_rejected[of fetch e, OF h])
  have bad: "snd (fetchPredictions conv fetch st) = st\<lparr>error_cell := ?gen, loading_cell := False\<rparr>
             \<and> render F G (snd (fetchPredictions conv fetch initialState)) = Inr (Message ?gen)"
    if h: "fetch ?url = Inr response \<and> (body response = Unparsable \<or> body response = Json JNull)"
  proof -
    from h have f: "fetch ?url = Inr response" by simp
    from h consider "body response = Unparsable" | "body response = Json JNull" by blast
    then have "fetchPredictions conv fetch st'
                 = (Inr (), st'\<lparr>error_cell := ?gen, loading_cell := False\<rparr>)" for st'
    proof cases
      case 1
      with f show ?thesis by (rule fetchPredictions_unparsable)
    next
      case 2
      with f show ?thesis by (rule fetchPredictions_null)
    qed
    then show ?thesis using render_connection_error[of F G] by simp
  qed
  have flag: "snd (fetchPredictions conv fetch st) = st\<lparr>error_cell := ?msg, loading_cell := False\<rparr>
              \<and> truthy (error_cell (snd (fetchPredictions conv fetch st)))
              \<and> render F G (snd (fetchPredictions conv fetch initialState)) = Inr (Message ?msg)"
    if h: "fetch ?url = Inr response \<and> body response = Json d
           \<and> property d ''success'' = Inr flag \<and> \<not> truthy flag
           \<and> property d ''message'' = Inr m"
  proof -
    have "fetchPredictions conv fetch st'
            = (Inr (), st'\<lparr>error_cell := ?msg, loading_cell := False\<rparr>)" for st'
      using h by (intro fetchPredictions_falsy_flag[of fetch response d flag m]) simp_all
    then show ?thesis
      using render_reported_error[of F G m] truthy_fallback[of m] by simp
  qed
  from fetchPredictions_returns[of conv fetch st] fetchPredictions_not_loading[of conv fetch st]
    rej bad flag
  show ?thesis by blast
qed

theorem no_exception_escapes_witness:
  "fst (fetchPredictions (\<lambda>v. Inl TypeError) (\<lambda>url. Inl TypeError) initialState) = Inr ()
   \<and> render (\<lambda>v. Inr ''1/1/2024'') (\<lambda>v. Inr ''0.00'')
       (snd (fetchPredictions (\<lambda>v. Inl TypeError) (\<lambda>url. Inl TypeError) initialState))
     = Inr (Message (JStr ''Error connecting to the server''))
   \<and> render (\<lambda>v. Inr ''1/1/2024'') (\<lambda>v. Inr ''0.00'')
       (snd (fetchPredictions (\<lambda>v. Inl TypeError)
          (\<lambda>url. Inr \<lparr>status = 200, body = Unparsable\<rparr>) initialState))
     = Inr (Message (JStr ''Error connecting to the server''))
   \<and> render (\<lambda>v. Inr ''1/1/2024'') (\<lambda>v. Inr ''0.00'')
       (snd (fetchPredictions (\<lambda>v. Inl TypeError)
          (\<lambda>url. Inr \<lparr>status = 200, body = Json JNull\<rparr>) initialState))
     = Inr (Message (JStr ''Error connecting to the server''))
   \<and> render (\<lambda>v. Inr ''1/1/2024'') (\<lambda>v. Inr ''0.00'')
       (snd (fetchPredictions (\<lambda>v. Inl TypeError)
          (\<lambda>url. Inr \<lparr>status = 200, body = Json (JObj [(''success'', JBool False)])\<rparr>)
          initialState))
     = Inr (Message (JStr ''Failed to fetch predictions''))"
  using no_exception_escapes
      [where conv = "\<lambda>v. Inl TypeError" and fetch = "\<lambda>url. Inl TypeError"
         and st = initialState and e = TypeError
         and response = "\<lparr>status = 200, body = Unparsable\<rparr>"
         and d = JNull and flag = JNull and m = JNull
         and F = "\<lambda>v. Inr ''1/1/2024''" and G = "\<lambda>v. Inr ''0.00''"]
    no_exception_escapes
      [where conv = "\<lambda>v. Inl TypeError"
         and fetch = "\<lambda>url. Inr \<lparr>status = 200, body = Unparsable\<rparr>"
         and response = "\<lparr>status = 200, body = Unparsable\<rparr>"
         and st = initialState and e = TypeError
         and d = JNull and flag = JNull and m = JNull
         and F = "\<lambda>v. Inr ''1/1/2024''" and G = "\<lambda>v. Inr ''0.00''"]
    no_exception_escapes
      [where conv = "\<lambda>v. Inl TypeError"
         and fetch = "\<lambda>url. Inr \<lparr>status = 200, body = Json JNull\<rparr>"
         and response = "\<lparr>status = 200, body = Json JNull\<rparr>"
         and st = initialState and e = TypeError
         and d = JNull and flag = JNull and m = JNull
         and F = "\<lambda>v. Inr ''1/1/2024''" and G = "\<lambda>v. Inr ''0.00''"]
    no_exception_escapes
      [where conv = "\<lambda>v. Inl TypeError"
         and fetch = "\<lambda>url. Inr \<lparr>status = 200,
                          body = Json (JObj [(''success'', JBool False)])\<rparr>"
         and response = "\<lparr>status = 200, body = Json (JObj [(''success'', JBool False)])\<rparr>"
         and d = "JObj [(''success'', JBool False)]" and flag = "JBool False"
         and m = JUndefined and st = initialState and e = TypeError
         and F = "\<lambda>v. Inr ''1/1/2024''" and G = "\<lambda>v. Inr ''0.00''"]
  by (simp add: render_def fetchPredictions_def tryBlock_def json_def property_def truthy_def
      initialState_def setError_def setLoading_def)


section \<open>The status of the response\<close>

text \<open>
  C8, as the specification states it, fails: a response with status 500 whose body is a
  payload of the declared shape with the success flag true ends in the page with the
  chart and the table, not in the error view.
\<close>

theorem non_200_reaches_ready:
  "render (\<lambda>v. Inr ''1/1/2024'') (\<lambda>v. Inr ''42,000.50'')
     (snd (fetchPredictions (\<lambda>v. Inl TypeError)
        (\<lambda>url. Inr \<lparr>status = 500,
           body = Json (js_of_response \<lparr>success = True,
             predictions = [\<lparr>Date = ''2024-01-01'', Predicted_Price = 42000.5\<rparr>],
             plot_url = ''/plot.png'', message = None\<rparr>)\<rparr>)
        initialState))
   = Inr (Page (JArr [JObj [(''Date'', JStr ''2024-01-01''),
                            (''Predicted_Price'', JNum 42000.5)]])
            [(''1/1/2024'', ''$42,000.50'')])"
  by (simp add: render_def tableRow_def fetchPredictions_def tryBlock_def json_def
      js_of_response_def js_of_Prediction_def property_def truthy_def templateString_def
      initialState_def setLoading_def setPredictions_def setPlotUrl_def)

text \<open>
  C8, amended. The status is never read: for every body, a response with a status other
  than 200 is handled as the response with status 200 and the same body. After the
  routine has run on the initial state, the view is the error message when the body is
  not JSON, is \<open>null\<close>, or has a falsy success flag, and it is the page, with the
  predictions handed to the chart and one table row per prediction, when the body is a
  payload of the declared shape with the success flag true.
\<close>

theorem status_is_not_inspected:
  assumes "fetch ''http://localhost:5000/api/predictions'' = Inr response"
    and "fetch' ''http://localhost:5000/api/predictions'' = Inr response'"
    and "status response \<noteq> 200" and "status response' = 200"
    and "body response = body response'"
  shows "fetchPredictions conv fetch st = fetchPredictions conv fetch' st
       \<and> (body response = Unparsable \<or> body response = Json JNull \<longrightarrow>
            render F G (snd (fetchPredictions conv fetch initialState))
              = Inr (Message (JStr ''Error connecting to the server'')))
       \<and> (body response = Json d
            \<and> property d ''success'' = Inr flag \<and> \<not> truthy flag
            \<and> property d ''message'' = Inr m \<longrightarrow>
            truthy (if truthy m then m else JStr ''Failed to fetch predictions'')
            \<and> render F G (snd (fetchPredictions conv fetch initialState))
              = Inr (Message (if truthy m then m else JStr ''Failed to fetch predictions'')))
       \<and> ((\<forall>s. F (JStr s) = Inr (f s)) \<and> (\<forall>x. G (JNum x) = Inr (g x))
            \<and> body response = Json (js_of_response p) \<and> success p \<longrightarrow>
            render F G (snd (fetchPredictions conv fetch initialState))
              = Inr (Page (JArr (map js_of_Prediction (PredictionResponse.predictions p)))
                       (map (\<lambda>q. (f (Date q), ''$'' @ g (Predicted_Price q)))
                          (PredictionResponse.predictions p))))"
proof -
  let ?gen = "JStr ''Error connecting to the server''"
  let ?msg = "if truthy m then m else JStr ''Failed to fetch predictions''"
  have same: "fetchPredictions conv fetch st = fetchPredictions conv fetch' st"
    using assms(1,2,5) by (rule fetchPredictions_body_only)
  have bad: "render F G (snd (fetchPredictions conv fetch initialState)) = Inr (Message ?gen)"
    if h: "body response = Unparsable \<or> body response = Json JNull"
  proof -
    from h consider "body response = Unparsable" | "body response = Json JNull" by blast
    then have "fetchPredictions conv fetch initialState
                 = (Inr (), initialState\<lparr>error_cell := ?gen, loading_cell := False\<rparr>)"
    proof cases
      case 1
      with assms(1) show ?thesis by (rule fetchPredictions_unparsable)
    next
      case 2
      with assms(1) show ?thesis by (rule fetchPredictions_null)
    qed
    then show ?thesis using render_connection_error[of F G] by simp
  qed
  have flag: "truthy ?msg
              \<and> render F G (snd (fetchPredictions conv fetch initialState)) = Inr (Message ?msg)"
    if h: "body response = Json d \<and> property d ''success'' = Inr flag \<and> \<not> truthy flag
           \<and> property d ''message'' = Inr m"
  proof -
    have "fetchPredictions conv fetch initialState
            = (Inr (), initialState\<lparr>error_cell := ?msg, loading_cell := False\<rparr>)"
      using assms(1) h
      by (intro fetchPredictions_falsy_flag[of fetch response d flag m]) simp_all
    then show ?thesis
      using render_reported_error[of F G m] truthy_fallback[of m] by simp
  qed
  have ok: "render F G (snd (fetchPredictions conv fetch initialState))
              = Inr (Page (JArr (map js_of_Prediction (PredictionResponse.predictions p)))
                       (map (\<lambda>q. (f (Date q), ''$'' @ g (Predicted_Price q)))
                          (PredictionResponse.predictions p)))"
    if h: "(\<forall>s. F (JStr s) = Inr (f s)) \<and> (\<forall>x. G (JNum x) = Inr (g x))
           \<and> body response = Json (js_of_response p) \<and> success p"
  proof -
    let ?st = "initialState\<lparr>predictions_cell :=
                   JArr (map js_of_Prediction (PredictionResponse.predictions p)),
                 plotUrl_cell := ''http://localhost:5000'' @ plot_url p,
                 loading_cell := False\<rparr>"
    have r: "fetchPredictions conv fetch initialState = (Inr (), ?st)"
      using assms(1) h
      by (intro fetchPredictions_declared_success[of fetch response p]) simp_all
    have "render F G ?st
            = Inr (Page (JArr (map js_of_Prediction (PredictionResponse.predictions p)))
                     (map (\<lambda>q. (f (Date q), ''$'' @ g (Predicted_Price q)))
                        (PredictionResponse.predictions p)))"
      using h
      by (intro render_declared_page) (simp_all add: initialState_def truthy_def)
    then show ?thesis unfolding r by simp
  qed
  from same bad flag ok show ?thesis by blast
qed

theorem status_is_not_inspected_witness:
  "fetchPredictions (\<lambda>v. Inl TypeError)
     (\<lambda>url. Inr \<lparr>status = 500,
        body = Json (js_of_response \<lparr>success = True,
          predictions = [\<lparr>Date = ''2024-01-01'', Predicted_Price = 42000.5\<rparr>],
          plot_url = ''/plot.png'', message = None\<rparr>)\<rparr>) initialState
   = fetchPredictions (\<lambda>v. Inl TypeError)
     (\<lambda>url. Inr \<lparr>status = 200,
        body = Json (js_of_response \<lparr>success = True,
          predictions = [\<lparr>Date = ''2024-01-01'', Predicted_Price = 42000.5\<rparr>],
          plot_url = ''/plot.png'', message = None\<rparr>)\<rparr>) initialState
   \<and> render (\<lambda>v. Inr ''1/1/2024'') (\<lambda>v. Inr ''42,000.50'')
       (snd (fetchPredictions (\<lambda>v. Inl TypeError)
          (\<lambda>url. Inr \<lparr>status = 500,
             body = Json (js_of_response \<lparr>success = True,
               predictions = [\<lparr>Date = ''2024-01-01'', Predicted_Price = 42000.5\<rparr>],
               plot_url = ''/plot.png'', message = None\<rparr>)\<rparr>) initialState))
     = Inr (Page (JArr [JObj [(''Date'', JStr ''2024-01-01''),
                              (''Predicted_Price'', JNum 42000.5)]])
              [(''1/1/2024'', ''$42,000.50'')])
   \<and> render (\<lambda>v. Inr ''1/1/2024'') (\<lambda>v. Inr ''42,000.50'')
       (snd (fetchPredictions (\<lambda>v. Inl TypeError)
          (\<lambda>url. Inr \<lparr>status = 404, body = Unparsable\<rparr>) initialState))
     = Inr (Message (JStr ''Error connecting to the server''))
   \<and> render (\<lambda>v. Inr ''1/1/2024'') (\<lambda>v. Inr ''42,000.50'')
       (snd (fetchPredictions (\<lambda>v. Inl TypeError)
          (\<lambda>url. Inr \<lparr>status = 503,
             body = Json (JObj [(''success'', JBool False),
                                (''message'', JStr ''model not trained'')])\<rparr>) initialState))
     = Inr (Message (JStr ''model not trained''))"
  using status_is_not_inspected
      [where conv = "\<lambda>v. Inl TypeError"
         and fetch = "\<lambda>url. Inr \<lparr>status = 500,
             body = Json (js_of_response \<lparr>success = True,
               predictions = [\<lparr>Date = ''2024-01-01'', Predicted_Price = 42000.5\<rparr>],
               plot_url = ''/plot.png'', message = None\<rparr>)\<rparr>"
         and response = "\<lparr>status = 500,
             body = Json (js_of_response \<lparr>success = True,
               predictions = [\<lparr>Date = ''2024-01-01'', Predicted_Price = 42000.5\<rparr>],
               plot_url = ''/plot.png'', message = None\<rparr>)\<rparr>"
         and fetch' = "\<lambda>url. Inr \<lparr>status = 200,
             body = Json (js_of_response \<lparr>success = True,
               predictions = [\<lparr>Date = ''2024-01-01'', Predicted_Price = 42000.5\<rparr>],
               plot_url = ''/plot.png'', message = None\<rparr>)\<rparr>"
         and response' = "\<lparr>status = 200,
             body = Json (js_of_response \<lparr>success = True,
               predictions = [\<lparr>Date = ''2024-01-01'', Predicted_Price = 42000.5\<rparr>],
               plot_url = ''/plot.png'', message = None\<rparr>)\<rparr>"
         and st = initialState and d = JNull and flag = JNull and m = JNull
         and F = "\<lambda>v. Inr ''1/1/2024''" and f = "\<lambda>s. ''1/1/2024''"
         and G = "\<lambda>v. Inr ''42,000.50''" and g = "\<lambda>x. ''42,000.50''"
         and p = "\<lparr>success = True,
               predictions = [\<lparr>Date = ''2024-01-01'', Predicted_Price = 42000.5\<rparr>],
               plot_url = ''/plot.png'', message = None\<rparr>"]
    status_is_not_inspected
      [where conv = "\<lambda>v. Inl TypeError"
         and fetch = "\<lambda>url. Inr \<lparr>status = 404, body = Unparsable\<rparr>"
         and response = "\<lparr>status = 404, body = Unparsable\<rparr>"
         and fetch' = "\<lambda>url. Inr \<lparr>status = 200, body = Unparsable\<rparr>"
         and response' = "\<lparr>status = 200, body = Unparsable\<rparr>"
         and st = initialState and d = JNull and flag = JNull and m = JNull
         and f = "\<lambda>s. ''1/1/2024''" and g = "\<lambda>x. ''42,000.50''"
         and p = "\<lparr>success = False, predictions = [], plot_url = [], message = None\<rparr>"
         and F = "\<lambda>v. Inr ''1/1/2024''" and G = "\<lambda>v. Inr ''42,000.50''"]
    status_is_not_inspected
      [where conv = "\<lambda>v. Inl TypeError"
         and fetch = "\<lambda>url. Inr \<lparr>status = 503,
             body = Json (JObj [(''success'', JBool False),
                                (''message'', JStr ''model not trained'')])\<rparr>"
         and response = "\<lparr>status = 503,
             body = Json (JObj [(''success'', JBool False),
                                (''message'', JStr ''model not trained'')])\<rparr>"
         and fetch' = "\<lambda>url. Inr \<lparr>status = 200,
             body = Json (JObj [(''success'', JBool False),
                                (''message'', JStr ''model not trained'')])\<rparr>"
         and response' = "\<lparr>status = 200,
             body = Json (JObj [(''success'', JBool False),
                                (''message'', JStr ''model not trained'')])\<rparr>"
         and d = "JObj [(''success'', JBool False), (''message'', JStr ''model not trained'')]"
         and flag = "JBool False" and m = "JStr ''model not trained''"
         and st = initialState
         and f = "\<lambda>s. ''1/1/2024''" and g = "\<lambda>x. ''42,000.50''"
         and p = "\<lparr>success = False, predictions = [], plot_url = [], message = None\<rparr>"
         and F = "\<lambda>v. Inr ''1/1/2024''" and G = "\<lambda>v. Inr ''42,000.50''"]
  by (simp add: render_def tableRow_def fetchPredictions_def tryBlock_def json_def
      js_of_response_def js_of_Prediction_def property_def truthy_def templateString_def
      initialState_def setError_def setLoading_def setPredictions_def setPlotUrl_def)


section \<open>The chart data\<close>

text \<open>
  C9. For every series, the empty one too, the chart data has one label and one value
  per point, in the order of the series: the labels and the values of the one dataset
  are as long as the series, label \<open>i\<close> is the formatted date of point \<open>i\<close> and value
  \<open>i\<close> is the price of point \<open>i\<close>.
\<close>

theorem chart_data_pointwise:
  "length (labels (PriceChart_data f ps)) = length ps
   \<and> length (datasets (PriceChart_data f ps)) = 1
   \<and> length (datasets (PriceChart_data f ps) ! 0) = length ps
   \<and> (\<forall>i<length ps.
        labels (PriceChart_data f ps) ! i = f (Date (ps ! i))
        \<and> datasets (PriceChart_data f ps) ! 0 ! i = Predicted_Price (ps ! i))"
  by (simp add: PriceChart_data_def)

theorem chart_data_pointwise_witness:
  "labels (PriceChart_data (\<lambda>s. s)
      [\<lparr>Date = ''2024-01-01'', Predicted_Price = 42000.5\<rparr>,
       \<lparr>Date = ''2024-01-02'', Predicted_Price = 41000\<rparr>]) ! 1 = ''2024-01-02''
   \<and> datasets (PriceChart_data (\<lambda>s. s)
      [\<lparr>Date = ''2024-01-01'', Predicted_Price = 42000.5\<rparr>,
       \<lparr>Date = ''2024-01-02'', Predicted_Price = 41000\<rparr>]) ! 0 ! 1 = 41000
   \<and> length (labels (PriceChart_data (\<lambda>s. s) [])) = 0
   \<and> length (datasets (PriceChart_data (\<lambda>s. s) []) ! 0) = 0"
  using chart_data_pointwise
      [of "\<lambda>s. s" "[\<lparr>Date = ''2024-01-01'', Predicted_Price = 42000.5\<rparr>,
       \<lparr>Date = ''2024-01-02'', Predicted_Price = 41000\<rparr>]"]
    chart_data_pointwise [of "\<lambda>s. s" "[]"]
  by simp


section \<open>The table body\<close>

text \<open>
  C10. When the view is the page (not loading, no error), the table body has one row per
  point of the whole series, in the order of the series, whatever the page cursor:
  neither \<open>totalPages\<close> nor \<open>getCurrentItems\<close> reaches the view, which is the same for
  every current page and every page size.
\<close>

theorem table_ignores_page_cursor:
  assumes "\<not> loading st" and "error st = None \<or> error st = Some []"
  shows "tableRows (Home f g n st)
           = map (\<lambda>d. (f (Date d), ''$'' @ g (Predicted_Price d))) (predictions st)
       \<and> length (tableRows (Home f g n st)) = length (predictions st)
       \<and> (\<forall>i<length (predictions st).
            tableRows (Home f g n st) ! i
              = (f (Date (predictions st ! i)), ''$'' @ g (Predicted_Price (predictions st ! i))))
       \<and> Home f g n' (st\<lparr>currentPage := c\<rparr>) = Home f g n st"
proof -
  have r: "Home f g n st =
           Ready (PriceChart_data f (predictions st))
             (map (\<lambda>d. (f (Date d), ''$'' @ g (Predicted_Price d))) (predictions st))"
    using assms by (rule Home_ready)
  have c: "Home f g n' (st\<lparr>currentPage := c\<rparr>) = Home f g n st"
    by (simp add: Home_def Let_def)
  show ?thesis unfolding c r by simp
qed

theorem table_ignores_page_cursor_witness:
  "tableRows (Home (\<lambda>s. s) (\<lambda>x. ''0.00'') itemsPerPage
      \<lparr>loading = False, error = None,
       predictions = [\<lparr>Date = ''d1'', Predicted_Price = 1\<rparr>, \<lparr>Date = ''d2'', Predicted_Price = 2\<rparr>,
         \<lparr>Date = ''d3'', Predicted_Price = 3\<rparr>, \<lparr>Date = ''d4'', Predicted_Price = 4\<rparr>,
         \<lparr>Date = ''d5'', Predicted_Price = 5\<rparr>, \<lparr>Date = ''d6'', Predicted_Price = 6\<rparr>,
         \<lparr>Date = ''d7'', Predicted_Price = 7\<rparr>, \<lparr>Date = ''d8'', Predicted_Price = 8\<rparr>,
         \<lparr>Date = ''d9'', Predicted_Price = 9\<rparr>],
       plotUrl = ''http://localhost:5000/plot.png'', currentPage = 0\<rparr>)
   = [(''d1'', ''$0.00''), (''d2'', ''$0.00''), (''d3'', ''$0.00''), (''d4'', ''$0.00''),
      (''d5'', ''$0.00''), (''d6'', ''$0.00''), (''d7'', ''$0.00''), (''d8'', ''$0.00''),
      (''d9'', ''$0.00'')]"
  using table_ignores_page_cursor
    [of "\<lparr>loading = False, error = None,
       predictions = [\<lparr>Date = ''d1'', Predicted_Price = 1\<rparr>, \<lparr>Date = ''d2'', Predicted_Price = 2\<rparr>,
         \<lparr>Date = ''d3'', Predicted_Price = 3\<rparr>, \<lparr>Date = ''d4'', Predicted_Price = 4\<rparr>,
         \<lparr>Date = ''d5'', Predicted_Price = 5\<rparr>, \<lparr>Date = ''d6'', Predicted_Price = 6\<rparr>,
         \<lparr>Date = ''d7'', Predicted_Price = 7\<rparr>, \<lparr>Date = ''d8'', Predicted_Price = 8\<rparr>,
         \<lparr>Date = ''d9'', Predicted_Price = 9\<rparr>],
       plotUrl = ''http://localhost:5000/plot.png'', currentPage = 0\<rparr>"
      "\<lambda>s. s" "\<lambda>x. ''0.00''" itemsPerPage]
  by simp

end
